theory Spec2Isabelle
  imports Complex_Main
begin

section \<open>FinDiscountCurveZeros: a discount curve built from dates and zero rates\<close>

text \<open>
  A shallow embedding of \<^verbatim>\<open>financepy/market/curves/FinDiscountCurveZeros.py\<close>.
  Python floats are read as real numbers. Float sequences (Python lists and numpy
  arrays) are objects with identity: they live in a store and are held by address, so
  that \<^verbatim>\<open>.copy()\<close> and the item assignment of \<^verbatim>\<open>bump\<close> mean what they mean in
  Python. An instance attribute is optional, because an attribute that no statement has
  assigned raises \<^verbatim>\<open>AttributeError\<close> when it is read.
\<close>

subsection \<open>Exceptions\<close>

text \<open>
  \<^verbatim>\<open>FinError\<close> is the one exception class the module raises itself; it carries a
  message. \<^verbatim>\<open>AttributeError\<close> (with the attribute's name) and \<^verbatim>\<open>IndexError\<close> are
  the interpreter's. \<^verbatim>\<open>InvalidTimeError\<close> is the name the specification gives to the
  rejection of a query at a negative time.
\<close>

datatype exn =
    FinError string
  | AttributeError string
  | IndexError
  | InvalidTimeError

datatype exn_class = FinErrorClass | AttributeErrorClass | IndexErrorClass | InvalidTimeErrorClass

fun class_of :: "exn \<Rightarrow> exn_class" where
  "class_of (FinError msg) = FinErrorClass"
| "class_of (AttributeError name) = AttributeErrorClass"
| "class_of IndexError = IndexErrorClass"
| "class_of InvalidTimeError = InvalidTimeErrorClass"

subsection \<open>The store of float sequences\<close>

type_synonym addr = nat

record store =
  cells :: "addr \<Rightarrow> real list"
  nxt :: addr

text \<open>A new sequence object (\<^verbatim>\<open>np.array(xs)\<close>, or the list a function returns).\<close>

definition alloc :: "real list \<Rightarrow> store \<Rightarrow> addr \<times> store" where
  "alloc xs st = (nxt st, st\<lparr>cells := (cells st)(nxt st := xs), nxt := Suc (nxt st)\<rparr>)"

text \<open>\<^verbatim>\<open>a.copy()\<close>: a new object with the same items.\<close>

definition copy :: "addr \<Rightarrow> store \<Rightarrow> addr \<times> store" where
  "copy a st = alloc (cells st a) st"

text \<open>\<^verbatim>\<open>a[i] = v\<close>: in place; out of range it raises.\<close>

definition setitem :: "addr \<Rightarrow> nat \<Rightarrow> real \<Rightarrow> store \<Rightarrow> exn option \<times> store" where
  "setitem a i v st =
     (if i < length (cells st a)
      then (None, st\<lparr>cells := (cells st)(a := (cells st a)[i := v])\<rparr>)
      else (Some IndexError, st))"

subsection \<open>Collaborators imported by the module\<close>

text \<open>
  The values \<^verbatim>\<open>labelToString\<close> is called with: a string, a date, a float or a
  frequency selector.
\<close>

datatype ('d, 'f) pyval = PyStr string | PyDate 'd | PyFloat real | PyFrequency 'f

text \<open>
  The module imports its helpers from \<^verbatim>\<open>finutils\<close> and \<^verbatim>\<open>FinInterpolate\<close>; none
  of them is defined in it. They are parameters of the model. The type \<open>'d\<close> is
  \<^verbatim>\<open>FinDate\<close>; \<open>'f\<close>, \<open>'c\<close> and \<open>'m\<close> are whatever is passed as \<^verbatim>\<open>frequencyType\<close>,
  \<^verbatim>\<open>dayCountType\<close> and \<^verbatim>\<open>interpMethod\<close>.
  \<^item> \<open>checkArgumentTypes\<close>: the call \<^verbatim>\<open>checkArgumentTypes(self.__init__, locals())\<close>,
    which may raise;
  \<^item> \<open>inFinFrequencyTypes\<close>, \<open>inFinDayCountTypes\<close>: membership in the two enumerations
    (\<^verbatim>\<open>frequencyType in FinFrequencyTypes\<close>);
  \<^item> \<open>strFrequency\<close>, \<open>strDayCount\<close>: Python's \<^verbatim>\<open>str\<close> on the two selectors;
  \<^item> \<open>yearFrac\<close>: the year fraction between two dates under a day-count convention;
  \<^item> \<open>zeroToDf\<close>: \<^verbatim>\<open>zeroToDf(r, t, frequencyType)\<close>, the Rate Converter;
  \<^item> \<open>dfToZero\<close>: the conversion back, from a discount factor to a zero rate;
  \<^item> \<open>interpolate\<close>: the interpolation evaluator, given the method, the time, the
    times and the discount factors;
  \<^item> \<open>labelToString\<close>: the formatting helper of \<^verbatim>\<open>__repr__\<close>.
\<close>

record ('d, 'f, 'c, 'm) collaborators =
  checkArgumentTypes :: "'d \<Rightarrow> 'd list \<Rightarrow> real list \<Rightarrow> 'f \<Rightarrow> 'c \<Rightarrow> 'm \<Rightarrow> exn option"
  inFinFrequencyTypes :: "'f \<Rightarrow> bool"
  inFinDayCountTypes :: "'c \<Rightarrow> bool"
  strFrequency :: "'f \<Rightarrow> string"
  strDayCount :: "'c \<Rightarrow> string"
  yearFrac :: "'c \<Rightarrow> 'd \<Rightarrow> 'd \<Rightarrow> real"
  zeroToDf :: "real \<Rightarrow> real \<Rightarrow> 'f \<Rightarrow> real"
  dfToZero :: "real \<Rightarrow> real \<Rightarrow> 'f \<Rightarrow> real"
  interpolate :: "'m \<Rightarrow> real \<Rightarrow> real list \<Rightarrow> real list \<Rightarrow> real"
  labelToString :: "('d, 'f) pyval \<Rightarrow> ('d, 'f) pyval \<Rightarrow> string"

text \<open>
  Modelled from the spec: \<^verbatim>\<open>timesFromDates\<close> (finutils.FinHelperFunctions, imported, not
  defined in the module). "Year-fractions are computed from (valuationDate, each observation date)
  under the day-count convention": one year fraction per date, in order.
\<close>

definition timesFromDates ::
  "('d, 'f, 'c, 'm) collaborators \<Rightarrow> 'd list \<Rightarrow> 'd \<Rightarrow> 'c \<Rightarrow> real list" where
  "timesFromDates E zeroDates valuationDate dayCountType =
     map (yearFrac E dayCountType valuationDate) zeroDates"

text \<open>
  Modelled from the spec: \<^verbatim>\<open>testMonotonicity\<close> (finutils.FinMath, imported, not defined in
  the module). "The resulting year-fraction sequence must be strictly monotonically
  increasing": each item is compared with the one before it.
\<close>

fun testMonotonicity :: "real list \<Rightarrow> bool" where
  "testMonotonicity [] = True"
| "testMonotonicity [x] = True"
| "testMonotonicity (x # y # rest) = (if y \<le> x then False else testMonotonicity (y # rest))"

subsection \<open>The object\<close>

text \<open>
  The instance attributes. \<^verbatim>\<open>_zeroDates\<close> is a list of dates, which no statement of
  the module writes to; the four float sequences are addresses into the store.
  \<^verbatim>\<open>_discountFactors\<close> is the attribute \<^verbatim>\<open>bump\<close> reads.
\<close>

record ('d, 'f, 'c, 'm) FinDiscountCurveZeros =
  self_valuationDate :: "'d option"
  self_frequencyType :: "'f option"
  self_dayCountType :: "'c option"
  self_interpMethod :: "'m option"
  self_times :: "addr option"
  self_zeroRates :: "addr option"
  self_zeroDates :: "'d list option"
  self_dfValues :: "addr option"
  self_discountFactors :: "addr option"

text \<open>The object as \<^verbatim>\<open>__init__\<close> receives it: no attribute assigned yet.\<close>

definition new_object :: "('d, 'f, 'c, 'm) FinDiscountCurveZeros" where
  "new_object =
     \<lparr>self_valuationDate = None, self_frequencyType = None, self_dayCountType = None,
      self_interpMethod = None, self_times = None, self_zeroRates = None,
      self_zeroDates = None, self_dfValues = None, self_discountFactors = None\<rparr>"

text \<open>
  What \<^verbatim>\<open>bump\<close> passes to the base class: \<^verbatim>\<open>FinDiscountCurve(self._valuationDate,
  times, discountFactors, self._interpMethod)\<close>. The base class is imported, not defined in the module;
  the object it makes is represented by the four arguments of the call.
\<close>

record ('d, 'm) FinDiscountCurve =
  fdc_valuationDate :: 'd
  fdc_times :: addr
  fdc_discountFactors :: addr
  fdc_interpMethod :: 'm

subsection \<open>Construction\<close>

text \<open>
  The loop of \<^verbatim>\<open>_buildCurvePoints\<close> over \<^verbatim>\<open>range(0, numTimes)\<close>: each pass reads
  \<^verbatim>\<open>self._times[i]\<close>, \<^verbatim>\<open>self._zeroRates[i]\<close> and \<^verbatim>\<open>self._frequencyType\<close>, in
  this order, and appends the discount factor to the local list.
\<close>

fun buildCurvePoints_loop ::
  "('d, 'f, 'c, 'm) collaborators \<Rightarrow> ('d, 'f, 'c, 'm) FinDiscountCurveZeros \<Rightarrow> store
     \<Rightarrow> nat list \<Rightarrow> real list \<Rightarrow> exn + real list" where
  "buildCurvePoints_loop E self st [] dfValues = Inr dfValues"
| "buildCurvePoints_loop E self st (i # rest) dfValues =
     (case self_times self of
        None \<Rightarrow> Inl (AttributeError ''_times'')
      | Some ta \<Rightarrow>
          if \<not> i < length (cells st ta) then Inl IndexError
          else
            (case self_zeroRates self of
               None \<Rightarrow> Inl (AttributeError ''_zeroRates'')
             | Some ra \<Rightarrow>
                 if \<not> i < length (cells st ra) then Inl IndexError
                 else
                   (case self_frequencyType self of
                      None \<Rightarrow> Inl (AttributeError ''_frequencyType'')
                    | Some f \<Rightarrow>
                        buildCurvePoints_loop E self st rest
                          (dfValues @ [zeroToDf E (cells st ra ! i) (cells st ta ! i) f]))))"

text \<open>
  \<^verbatim>\<open>_buildCurvePoints\<close>: the loop, then \<^verbatim>\<open>self._dfValues = np.array(dfValues)\<close>. It is
  the only assignment to a discount-factor attribute in the class.
\<close>

definition buildCurvePoints ::
  "('d, 'f, 'c, 'm) collaborators \<Rightarrow> ('d, 'f, 'c, 'm) FinDiscountCurveZeros \<Rightarrow> store
     \<Rightarrow> (exn + ('d, 'f, 'c, 'm) FinDiscountCurveZeros) \<times> store" where
  "buildCurvePoints E self st =
     (case self_times self of
        None \<Rightarrow> (Inl (AttributeError ''_times''), st)
      | Some ta \<Rightarrow>
          (case buildCurvePoints_loop E self st [0 ..< length (cells st ta)] [] of
             Inl e \<Rightarrow> (Inl e, st)
           | Inr dfValues \<Rightarrow>
               (case alloc dfValues st of
                  (da, st') \<Rightarrow> (Inr (self\<lparr>self_dfValues := Some da\<rparr>), st'))))"

text \<open>
  \<^verbatim>\<open>__init__\<close>. The checks are in the order of the source; the attributes are assigned
  after the four argument checks and before the monotonicity test. A raise discards the
  object; the store keeps the sequences made so far.
\<close>

definition FinDiscountCurveZeros_init ::
  "('d, 'f, 'c, 'm) collaborators \<Rightarrow> 'd \<Rightarrow> 'd list \<Rightarrow> addr \<Rightarrow> 'f \<Rightarrow> 'c \<Rightarrow> 'm \<Rightarrow> store
     \<Rightarrow> (exn + ('d, 'f, 'c, 'm) FinDiscountCurveZeros) \<times> store" where
  "FinDiscountCurveZeros_init E valuationDate zeroDates zeroRates frequencyType dayCountType
       interpMethod st =
     (case checkArgumentTypes E valuationDate zeroDates (cells st zeroRates) frequencyType
             dayCountType interpMethod of
        Some e \<Rightarrow> (Inl e, st)
      | None \<Rightarrow>
          if length zeroDates = 0 then
            (Inl (FinError ''Dates has zero length''), st)
          else if length zeroDates \<noteq> length (cells st zeroRates) then
            (Inl (FinError ''Dates and Rates are not the same length''), st)
          else if \<not> inFinFrequencyTypes E frequencyType then
            (Inl (FinError (''Unknown Frequency type '' @ strFrequency E frequencyType)), st)
          else if \<not> inFinDayCountTypes E dayCountType then
            (Inl (FinError (''Unknown Cap Floor DayCountRule type ''
                              @ strDayCount E dayCountType)), st)
          else
            (case alloc (timesFromDates E zeroDates valuationDate dayCountType) st of
               (ta, st1) \<Rightarrow>
                 if testMonotonicity (cells st1 ta) = False then
                   (Inl (FinError ''Times or dates are not sorted in increasing order''), st1)
                 else
                   buildCurvePoints E
                     (new_object\<lparr>self_valuationDate := Some valuationDate,
                                 self_frequencyType := Some frequencyType,
                                 self_dayCountType := Some dayCountType,
                                 self_interpMethod := Some interpMethod,
                                 self_times := Some ta,
                                 self_zeroRates := Some zeroRates,
                                 self_zeroDates := Some zeroDates\<rparr>)
                     st1))"

subsection \<open>The parallel shift\<close>

text \<open>
  The loop of \<^verbatim>\<open>bump\<close> over \<^verbatim>\<open>range(0, n)\<close>: \<^verbatim>\<open>t = times[i]\<close>, then
  \<^verbatim>\<open>discountFactors[i] = discountFactors[i] * np.exp(-bumpSize*t)\<close>, an assignment in
  place to the sequence the local name \<^verbatim>\<open>discountFactors\<close> is bound to.
\<close>

fun bump_loop :: "real \<Rightarrow> addr \<Rightarrow> addr \<Rightarrow> nat list \<Rightarrow> store \<Rightarrow> exn option \<times> store" where
  "bump_loop bumpSize times' discountFactors [] st = (None, st)"
| "bump_loop bumpSize times' discountFactors (i # rest) st =
     (if \<not> i < length (cells st times') then (Some IndexError, st)
      else if \<not> i < length (cells st discountFactors) then (Some IndexError, st)
      else
        (case setitem discountFactors i
                (cells st discountFactors ! i * exp (- bumpSize * (cells st times' ! i))) st of
           (Some e, st') \<Rightarrow> (Some e, st')
         | (None, st') \<Rightarrow> bump_loop bumpSize times' discountFactors rest st'))"

text \<open>
  \<^verbatim>\<open>bump\<close>: copies \<^verbatim>\<open>self._times\<close> and \<^verbatim>\<open>self._discountFactors\<close>, scales the copy,
  and passes both copies to the base class with the valuation date and the
  interpolation method.
\<close>

definition bump ::
  "('d, 'f, 'c, 'm) FinDiscountCurveZeros \<Rightarrow> real \<Rightarrow> store
     \<Rightarrow> (exn + ('d, 'm) FinDiscountCurve) \<times> store" where
  "bump self bumpSize st =
     (case self_times self of
        None \<Rightarrow> (Inl (AttributeError ''_times''), st)
      | Some ta \<Rightarrow>
          (case copy ta st of
             (times', st1) \<Rightarrow>
               (case self_discountFactors self of
                  None \<Rightarrow> (Inl (AttributeError ''_discountFactors''), st1)
                | Some da \<Rightarrow>
                    (case copy da st1 of
                       (discountFactors, st2) \<Rightarrow>
                         (case bump_loop bumpSize times' discountFactors
                                 [0 ..< length (cells st2 ta)] st2 of
                            (Some e, st3) \<Rightarrow> (Inl e, st3)
                          | (None, st3) \<Rightarrow>
                              (case self_valuationDate self of
                                 None \<Rightarrow> (Inl (AttributeError ''_valuationDate''), st3)
                               | Some vd \<Rightarrow>
                                   (case self_interpMethod self of
                                      None \<Rightarrow> (Inl (AttributeError ''_interpMethod''), st3)
                                    | Some im \<Rightarrow>
                                        (Inr \<lparr>fdc_valuationDate = vd, fdc_times = times',
                                              fdc_discountFactors = discountFactors,
                                              fdc_interpMethod = im\<rparr>, st3))))))))"

subsection \<open>The rendering\<close>

text \<open>
  The loop of \<^verbatim>\<open>__repr__\<close>: \<^verbatim>\<open>s += labelToString(self._zeroDates[i],
  self._zeroRates[i])\<close>.
\<close>

fun repr_loop ::
  "('d, 'f, 'c, 'm) collaborators \<Rightarrow> ('d, 'f, 'c, 'm) FinDiscountCurveZeros \<Rightarrow> store
     \<Rightarrow> nat list \<Rightarrow> string \<Rightarrow> exn + string" where
  "repr_loop E self st [] s = Inr s"
| "repr_loop E self st (i # rest) s =
     (case self_zeroDates self of
        None \<Rightarrow> Inl (AttributeError ''_zeroDates'')
      | Some zd \<Rightarrow>
          if \<not> i < length zd then Inl IndexError
          else
            (case self_zeroRates self of
               None \<Rightarrow> Inl (AttributeError ''_zeroRates'')
             | Some ra \<Rightarrow>
                 if \<not> i < length (cells st ra) then Inl IndexError
                 else
                   repr_loop E self st rest
                     (s @ labelToString E (PyDate (zd ! i)) (PyFloat (cells st ra ! i)))))"

text \<open>
  \<^verbatim>\<open>__repr__\<close>: the class name and a newline, the number of points from
  \<^verbatim>\<open>len(self._times)\<close>, the heading, the loop, the frequency.
\<close>

definition FinDiscountCurveZeros_repr ::
  "('d, 'f, 'c, 'm) collaborators \<Rightarrow> ('d, 'f, 'c, 'm) FinDiscountCurveZeros \<Rightarrow> store
     \<Rightarrow> exn + string" where
  "FinDiscountCurveZeros_repr E self st =
     (case self_times self of
        None \<Rightarrow> Inl (AttributeError ''_times'')
      | Some ta \<Rightarrow>
          (case repr_loop E self st [0 ..< length (cells st ta)]
                  ((''FinDiscountCurveZeros'' @ [CHR 0x0A])
                     @ labelToString E (PyStr ''DATES'') (PyStr ''ZERO RATES'')) of
             Inl e \<Rightarrow> Inl e
           | Inr s \<Rightarrow>
               (case self_frequencyType self of
                  None \<Rightarrow> Inl (AttributeError ''_frequencyType'')
                | Some f \<Rightarrow> Inr (s @ labelToString E (PyStr ''FREQUENCY'') (PyFrequency f)))))"

subsection \<open>Queries\<close>

text \<open>
  Modelled from the spec: \<^verbatim>\<open>getDiscountFactor\<close>, a method of the base class
  \<^verbatim>\<open>FinDiscountCurve\<close>, which is imported, not defined in the module. It "returns the discount factor
  at arbitrary time t \<ge> 0, using the configured interpolation method when t falls
  between known points, at t = 0 returns exactly 1, and applies the method's defined
  extrapolation policy for t beyond the last known point or before the first"; a
  negative time is rejected with \<^verbatim>\<open>InvalidTimeError\<close>. Interpolation and extrapolation
  are the evaluator's; the discount factors are the sequence the builder has stored.
\<close>

definition getDiscountFactor ::
  "('d, 'f, 'c, 'm) collaborators \<Rightarrow> ('d, 'f, 'c, 'm) FinDiscountCurveZeros \<Rightarrow> real \<Rightarrow> store
     \<Rightarrow> exn + real" where
  "getDiscountFactor E self t st =
     (if t < 0 then Inl InvalidTimeError
      else if t = 0 then Inr 1
      else
        (case self_interpMethod self of
           None \<Rightarrow> Inl (AttributeError ''_interpMethod'')
         | Some m \<Rightarrow>
             (case self_times self of
                None \<Rightarrow> Inl (AttributeError ''_times'')
              | Some ta \<Rightarrow>
                  (case self_dfValues self of
                     None \<Rightarrow> Inl (AttributeError ''_dfValues'')
                   | Some da \<Rightarrow> Inr (interpolate E m t (cells st ta) (cells st da))))))"



subsection \<open>The Rate Converter and the known points\<close>







subsection \<open>A sample of collaborators\<close>

text \<open>
  Concrete collaborators, for running the model: dates are day numbers, the selectors
  are named by strings and the recognised ones are the defaults of \<^verbatim>\<open>__init__\<close>
  (\<^verbatim>\<open>ANNUAL\<close>, \<^verbatim>\<open>ACT_ACT_ISDA\<close>), a year is 365 days, rates compound annually, and
  the evaluator looks a time up among the known points.
\<close>

definition sample_label :: "(int, string) pyval \<Rightarrow> string" where
  "sample_label v =
     (case v of PyStr s \<Rightarrow> s | PyDate d \<Rightarrow> ''<date>'' | PyFloat r \<Rightarrow> ''<float>''
      | PyFrequency f \<Rightarrow> f)"

definition sample_env :: "(int, string, string, string) collaborators" where
  "sample_env =
     \<lparr>checkArgumentTypes = (\<lambda>vd zd zr f c m. None),
      inFinFrequencyTypes = (\<lambda>f. f = ''ANNUAL''),
      inFinDayCountTypes = (\<lambda>c. c = ''ACT_ACT_ISDA''),
      strFrequency = (\<lambda>f. f),
      strDayCount = (\<lambda>c. c),
      yearFrac = (\<lambda>c d1 d2. real_of_int (d2 - d1) / 365),
      zeroToDf = (\<lambda>r t f. (1 + r) powr (- t)),
      dfToZero = (\<lambda>df t f. df powr (- (1 / t)) - 1),
      interpolate = (\<lambda>m t ts ds. case filter (\<lambda>p. fst p = t) (zip ts ds) of
                                   [] \<Rightarrow> 1 | p # ps \<Rightarrow> snd p),
      labelToString = (\<lambda>l v. sample_label l @ '': '' @ sample_label v @ [CHR 0x0A])\<rparr>"

text \<open>A store holding one sequence, the rates, at address 0.\<close>

definition store_of :: "real list \<Rightarrow> store" where
  "store_of rates = \<lparr>cells = (\<lambda>a. [])(0 := rates), nxt = 1\<rparr>"

text \<open>
  The curve of the end-to-end example: valuation on day 100, observations one and two
  years later, rates 0.02 and 0.025. These are the object and the store the construction
  returns (lemma \<open>sample_init\<close>).
\<close>

definition sample_curve :: "(int, string, string, string) FinDiscountCurveZeros" where
  "sample_curve =
     \<lparr>self_valuationDate = Some 100, self_frequencyType = Some ''ANNUAL'',
      self_dayCountType = Some ''ACT_ACT_ISDA'', self_interpMethod = Some ''FLAT_FORWARDS'',
      self_times = Some 1, self_zeroRates = Some 0, self_zeroDates = Some [465, 830],
      self_dfValues = Some 2, self_discountFactors = None\<rparr>"

definition sample_store :: store where
  "sample_store =
     \<lparr>cells = (\<lambda>a. [])(0 := [1/50, 1/40], 1 := [1, 2],
                         2 := [(51/50) powr (- 1), (41/40) powr (- 2)]),
      nxt = 3\<rparr>"


text \<open>
  The sample with an argument type check that follows the annotation
  \<^verbatim>\<open>interpMethod: FinInterpMethods\<close> of \<^verbatim>\<open>__init__\<close>: it lets the default member
  through and raises on a value that is no member.
\<close>

definition strict_env :: "(int, string, string, string) collaborators" where
  "strict_env =
     sample_env\<lparr>checkArgumentTypes :=
       (\<lambda>vd zd zr f c m. if m = ''FLAT_FORWARDS'' then None
                          else Some (FinError ''Argument Type Error''))\<rparr>"

section \<open>Properties\<close>

subsection \<open>The store\<close>

lemma setitem_frame:
  "setitem d i v st = (r, st') \<Longrightarrow>
     nxt st' = nxt st \<and> (\<forall>a. a \<noteq> d \<longrightarrow> cells st' a = cells st a)
     \<and> length (cells st' d) = length (cells st d)"
  by (auto simp: setitem_def split: if_splits)

subsection \<open>Construction\<close>

lemma testMonotonicity_iff: "testMonotonicity xs \<longleftrightarrow> sorted_wrt (<) xs"
  by (induction xs rule: testMonotonicity.induct) (auto simp: not_le)

lemma buildCurvePoints_loop_Inr:
  assumes "self_times self = Some ta" "self_zeroRates self = Some ra"
    "self_frequencyType self = Some f"
    "\<And>i. i \<in> set idx \<Longrightarrow> i < length (cells st ta) \<and> i < length (cells st ra)"
  shows "buildCurvePoints_loop E self st idx acc =
    Inr (acc @ map (\<lambda>i. zeroToDf E (cells st ra ! i) (cells st ta ! i) f) idx)"
  using assms by (induction idx arbitrary: acc) auto

lemma buildCurvePoints_fields:
  "buildCurvePoints E obj st = (Inr self, st') \<Longrightarrow> self = obj\<lparr>self_dfValues := Some (nxt st)\<rparr>"
  by (auto simp: buildCurvePoints_def alloc_def split: option.splits sum.splits)

text \<open>The attributes of a constructed object: \<^verbatim>\<open>_discountFactors\<close> is not among them.\<close>

lemma init_attributes:
  assumes "FinDiscountCurveZeros_init E vd zd zr f dc m st = (Inr self, st')"
  shows "self = \<lparr>self_valuationDate = Some vd, self_frequencyType = Some f,
               self_dayCountType = Some dc, self_interpMethod = Some m,
               self_times = Some (nxt st), self_zeroRates = Some zr,
               self_zeroDates = Some zd, self_dfValues = Some (Suc (nxt st)),
               self_discountFactors = None\<rparr>"
  using assms
  by (auto simp: FinDiscountCurveZeros_init_def alloc_def new_object_def
           split: option.splits if_splits dest!: buildCurvePoints_fields)

text \<open>
  What a successful construction has checked and stored, when the rates are a sequence
  that exists in the store.
\<close>

lemma init_Inr:
  assumes "FinDiscountCurveZeros_init E vd zd zr f dc m st = (Inr self, st')"
    and "zr < nxt st"
  shows "checkArgumentTypes E vd zd (cells st zr) f dc m = None
    \<and> zd \<noteq> [] \<and> length zd = length (cells st zr)
    \<and> inFinFrequencyTypes E f \<and> inFinDayCountTypes E dc
    \<and> sorted_wrt (<) (timesFromDates E zd vd dc)
    \<and> st' = st\<lparr>cells := (cells st)
                  (nxt st := timesFromDates E zd vd dc,
                   Suc (nxt st) :=
                     map (\<lambda>i. zeroToDf E (cells st zr ! i) (timesFromDates E zd vd dc ! i) f)
                       [0 ..< length zd]),
               nxt := Suc (Suc (nxt st))\<rparr>"
proof -
  let ?ts = "timesFromDates E zd vd dc"
  let ?st1 = "st\<lparr>cells := (cells st)(nxt st := ?ts), nxt := Suc (nxt st)\<rparr>"
  let ?obj = "new_object\<lparr>self_valuationDate := Some vd, self_frequencyType := Some f,
                self_dayCountType := Some dc, self_interpMethod := Some m,
                self_times := Some (nxt st), self_zeroRates := Some zr,
                self_zeroDates := Some zd\<rparr>"
  from assms(1) have chk: "checkArgumentTypes E vd zd (cells st zr) f dc m = None"
    and ne: "zd \<noteq> []" and len: "length zd = length (cells st zr)"
    and fr: "inFinFrequencyTypes E f" and dcc: "inFinDayCountTypes E dc"
    and mono: "testMonotonicity ?ts"
    and b: "buildCurvePoints E ?obj ?st1 = (Inr self, st')"
    by (auto simp: FinDiscountCurveZeros_init_def alloc_def split: option.splits if_splits)
  have lts: "length ?ts = length zd" by (simp add: timesFromDates_def)
  have loop: "buildCurvePoints_loop E ?obj ?st1 [0 ..< length ?ts] [] =
     Inr ([] @ map (\<lambda>i. zeroToDf E (cells ?st1 zr ! i) (cells ?st1 (nxt st) ! i) f)
                 [0 ..< length ?ts])"
    using assms(2) len lts
    by (intro buildCurvePoints_loop_Inr) (auto simp: new_object_def)
  show ?thesis
    using b loop assms(2) chk ne len fr dcc mono lts
    by (auto simp: buildCurvePoints_def alloc_def new_object_def testMonotonicity_iff)
qed

lemma init_succeeds:
  assumes "checkArgumentTypes E vd zd (cells st zr) f dc m = None"
    "zd \<noteq> []" "length zd = length (cells st zr)"
    "inFinFrequencyTypes E f" "inFinDayCountTypes E dc"
    "sorted_wrt (<) (timesFromDates E zd vd dc)"
    "zr < nxt st"
  shows "\<exists>self st'. FinDiscountCurveZeros_init E vd zd zr f dc m st = (Inr self, st')"
proof -
  let ?ts = "timesFromDates E zd vd dc"
  let ?st1 = "st\<lparr>cells := (cells st)(nxt st := ?ts), nxt := Suc (nxt st)\<rparr>"
  let ?obj = "new_object\<lparr>self_valuationDate := Some vd, self_frequencyType := Some f,
                self_dayCountType := Some dc, self_interpMethod := Some m,
                self_times := Some (nxt st), self_zeroRates := Some zr,
                self_zeroDates := Some zd\<rparr>"
  have lts: "length ?ts = length zd" by (simp add: timesFromDates_def)
  have loop: "buildCurvePoints_loop E ?obj ?st1 [0 ..< length ?ts] [] =
     Inr ([] @ map (\<lambda>i. zeroToDf E (cells ?st1 zr ! i) (cells ?st1 (nxt st) ! i) f)
                 [0 ..< length ?ts])"
    using assms(3,7) lts
    by (intro buildCurvePoints_loop_Inr) (auto simp: new_object_def)
  show ?thesis
    using assms loop lts
    by (auto simp: FinDiscountCurveZeros_init_def alloc_def buildCurvePoints_def
          new_object_def testMonotonicity_iff)
qed

text \<open>The interpolation method is stored and never looked at.\<close>

lemma buildCurvePoints_loop_interpMethod:
  "buildCurvePoints_loop E (self\<lparr>self_interpMethod := x\<rparr>) st idx acc =
   buildCurvePoints_loop E self st idx acc"
  by (induction idx arbitrary: acc) (auto split: option.splits)

lemma buildCurvePoints_interpMethod:
  "buildCurvePoints E (self\<lparr>self_interpMethod := x\<rparr>) st =
     (case buildCurvePoints E self st of
        (Inl e, st') \<Rightarrow> (Inl e, st')
      | (Inr c, st') \<Rightarrow> (Inr (c\<lparr>self_interpMethod := x\<rparr>), st'))"
  by (simp add: buildCurvePoints_def buildCurvePoints_loop_interpMethod alloc_def
        split: option.splits sum.splits)

subsection \<open>The sample\<close>

lemma sample_chk: "checkArgumentTypes sample_env vd zd rs f dc m = None"
  by (simp add: sample_env_def)

lemma sample_init:
  "FinDiscountCurveZeros_init sample_env 100 [465, 830] 0 ''ANNUAL'' ''ACT_ACT_ISDA''
     ''FLAT_FORWARDS'' (store_of [1/50, 1/40]) = (Inr sample_curve, sample_store)"
  by (simp add: FinDiscountCurveZeros_init_def sample_env_def store_of_def alloc_def
        timesFromDates_def buildCurvePoints_def new_object_def upt_rec numeral_2_eq_2
        sample_curve_def sample_store_def)

subsection \<open>The parallel shift\<close>

lemma bump_unassigned:
  "self_times self = Some ta \<Longrightarrow> self_discountFactors self = None \<Longrightarrow>
     fst (bump self s st) = Inl (AttributeError ''_discountFactors'')"
  by (simp add: bump_def copy_def alloc_def)

lemma bump_loop_frame:
  "bump_loop s t d idx st = (r, st') \<Longrightarrow>
     nxt st' = nxt st \<and> (\<forall>a. a \<noteq> d \<longrightarrow> cells st' a = cells st a)
     \<and> length (cells st' d) = length (cells st d)"
proof (induction idx arbitrary: st)
  case Nil
  then show ?case by simp
next
  case (Cons i rest)
  show ?case
  proof (cases "i < length (cells st t) \<and> i < length (cells st d)")
    case False
    with Cons.prems show ?thesis by (auto split: if_splits)
  next
    case True
    obtain r1 st1 where
      s1: "setitem d i (cells st d ! i * exp (- s * (cells st t ! i))) st = (r1, st1)"
      by (cases "setitem d i (cells st d ! i * exp (- s * (cells st t ! i))) st")
    note f1 = setitem_frame [OF s1]
    show ?thesis
    proof (cases r1)
      case (Some e)
      with Cons.prems True s1 f1 show ?thesis by auto
    next
      case None
      with Cons.prems True s1 have "bump_loop s t d rest st1 = (r, st')" by simp
      from Cons.IH [OF this] f1 show ?thesis by auto
    qed
  qed
qed

text \<open>
  The loop on two different sequences: every index it visits is scaled once, the others
  are left as they are.
\<close>

lemma bump_loop_scales:
  assumes "t \<noteq> d" "distinct idx"
    "\<And>i. i \<in> set idx \<Longrightarrow> i < length (cells st t) \<and> i < length (cells st d)"
  shows "\<exists>st'. bump_loop s t d idx st = (None, st')
     \<and> (\<forall>j < length (cells st d). cells st' d ! j =
           (if j \<in> set idx then cells st d ! j * exp (- s * (cells st t ! j))
            else cells st d ! j))"
  using assms
proof (induction idx arbitrary: st)
  case Nil
  then show ?case by simp
next
  case (Cons i rest)
  let ?v = "cells st d ! i * exp (- s * (cells st t ! i))"
  let ?st1 = "st\<lparr>cells := (cells st)(d := (cells st d)[i := ?v])\<rparr>"
  have i: "i < length (cells st t)" "i < length (cells st d)" using Cons.prems(3) by auto
  have step: "bump_loop s t d (i # rest) st = bump_loop s t d rest ?st1"
    using i by (simp add: setitem_def)
  have "\<exists>st'. bump_loop s t d rest ?st1 = (None, st')
     \<and> (\<forall>j < length (cells ?st1 d). cells st' d ! j =
           (if j \<in> set rest then cells ?st1 d ! j * exp (- s * (cells ?st1 t ! j))
            else cells ?st1 d ! j))"
    using Cons.prems by (intro Cons.IH) auto
  then obtain st' where r: "bump_loop s t d rest ?st1 = (None, st')"
    and v: "\<forall>j < length (cells ?st1 d). cells st' d ! j =
           (if j \<in> set rest then cells ?st1 d ! j * exp (- s * (cells ?st1 t ! j))
            else cells ?st1 d ! j)"
    by blast
  have "\<forall>j < length (cells st d). cells st' d ! j =
           (if j \<in> set (i # rest) then cells st d ! j * exp (- s * (cells st t ! j))
            else cells st d ! j)"
  proof (intro allI impI)
    fix j assume j: "j < length (cells st d)"
    with v have e: "cells st' d ! j =
           (if j \<in> set rest then cells ?st1 d ! j * exp (- s * (cells ?st1 t ! j))
            else cells ?st1 d ! j)"
      by simp
    show "cells st' d ! j =
           (if j \<in> set (i # rest) then cells st d ! j * exp (- s * (cells st t ! j))
            else cells st d ! j)"
      using e Cons.prems(1,2) j i by (auto simp: nth_list_update)
  qed
  with step r show ?case by auto
qed

text \<open>
  Whatever the object and whatever the outcome, \<^verbatim>\<open>bump\<close> only adds sequences to the
  store: the ones that were there keep their items.
\<close>

lemma bump_frame:
  assumes "bump self s st = (r, st')"
  shows "nxt st \<le> nxt st' \<and> (\<forall>a < nxt st. cells st' a = cells st a)"
proof (cases "self_times self")
  case None
  with assms show ?thesis by (simp add: bump_def)
next
  case (Some ta)
  let ?st1 = "st\<lparr>cells := (cells st)(nxt st := cells st ta), nxt := Suc (nxt st)\<rparr>"
  have c1: "copy ta st = (nxt st, ?st1)" by (simp add: copy_def alloc_def)
  show ?thesis
  proof (cases "self_discountFactors self")
    case None
    with assms Some c1 show ?thesis by (auto simp: bump_def)
  next
    case (Some da)
    let ?st2 = "?st1\<lparr>cells := (cells ?st1)(Suc (nxt st) := cells ?st1 da),
                      nxt := Suc (Suc (nxt st))\<rparr>"
    have c2: "copy da ?st1 = (Suc (nxt st), ?st2)" by (simp add: copy_def alloc_def)
    obtain r3 st3 where
      l: "bump_loop s (nxt st) (Suc (nxt st)) [0 ..< length (cells ?st2 ta)] ?st2 = (r3, st3)"
      by (cases "bump_loop s (nxt st) (Suc (nxt st)) [0 ..< length (cells ?st2 ta)] ?st2")
    from bump_loop_frame [OF l]
    have f: "nxt st3 = Suc (Suc (nxt st))"
      "\<forall>a. a \<noteq> Suc (nxt st) \<longrightarrow> cells st3 a = cells ?st2 a"
      by auto
    have "st' = st3"
      using assms \<open>self_times self = Some ta\<close> Some c1 c2 l
      by (auto simp: bump_def split: option.splits)
    with f show ?thesis by auto
  qed
qed

text \<open>
  What a returned curve is made of: the two sequences are the two that \<^verbatim>\<open>bump\<close> has
  just made, the date and the method are the object's.
\<close>

lemma bump_result:
  assumes "bump self s st = (Inr d, st')"
  shows "fdc_times d = nxt st \<and> fdc_discountFactors d = Suc (nxt st)
    \<and> self_valuationDate self = Some (fdc_valuationDate d)
    \<and> self_interpMethod self = Some (fdc_interpMethod d)
    \<and> nxt st' = Suc (Suc (nxt st))"
proof (cases "self_times self")
  case None
  with assms show ?thesis by (simp add: bump_def)
next
  case (Some ta)
  note ta = this
  let ?st1 = "st\<lparr>cells := (cells st)(nxt st := cells st ta), nxt := Suc (nxt st)\<rparr>"
  have c1: "copy ta st = (nxt st, ?st1)" by (simp add: copy_def alloc_def)
  show ?thesis
  proof (cases "self_discountFactors self")
    case None
    with assms ta c1 show ?thesis by (simp add: bump_def)
  next
    case (Some da)
    note da = this
    let ?st2 = "?st1\<lparr>cells := (cells ?st1)(Suc (nxt st) := cells ?st1 da),
                      nxt := Suc (Suc (nxt st))\<rparr>"
    have c2: "copy da ?st1 = (Suc (nxt st), ?st2)" by (simp add: copy_def alloc_def)
    obtain r3 st3 where
      l: "bump_loop s (nxt st) (Suc (nxt st)) [0 ..< length (cells ?st2 ta)] ?st2 = (r3, st3)"
      by (cases "bump_loop s (nxt st) (Suc (nxt st)) [0 ..< length (cells ?st2 ta)] ?st2")
    from bump_loop_frame [OF l] have n3: "nxt st3 = Suc (Suc (nxt st))" by simp
    have b: "bump self s st =
       (case r3 of Some e \<Rightarrow> (Inl e, st3)
        | None \<Rightarrow>
           (case self_valuationDate self of
              None \<Rightarrow> (Inl (AttributeError ''_valuationDate''), st3)
            | Some vd \<Rightarrow>
               (case self_interpMethod self of
                  None \<Rightarrow> (Inl (AttributeError ''_interpMethod''), st3)
                | Some im \<Rightarrow>
                    (Inr \<lparr>fdc_valuationDate = vd, fdc_times = nxt st,
                          fdc_discountFactors = Suc (nxt st), fdc_interpMethod = im\<rparr>, st3))))"
      unfolding bump_def ta da c1 c2 option.case prod.case l
      by (cases r3) simp_all
    show ?thesis
      using assms n3 unfolding b
      by (cases r3; cases "self_valuationDate self"; cases "self_interpMethod self") auto
  qed
qed


text \<open>
  When \<^verbatim>\<open>_discountFactors\<close> is assigned, and as long as the times, \<^verbatim>\<open>bump\<close> does
  return: the new times are the old ones and each new discount factor is the old one
  times \<open>exp (- s * t)\<close>.
\<close>

lemma bump_Inr:
  assumes "self_times self = Some ta" "self_discountFactors self = Some da"
    "self_valuationDate self = Some vd" "self_interpMethod self = Some im"
    "ta < nxt st" "da < nxt st" "length (cells st ta) \<le> length (cells st da)"
  shows "\<exists>st'. bump self s st =
       (Inr \<lparr>fdc_valuationDate = vd, fdc_times = nxt st,
             fdc_discountFactors = Suc (nxt st), fdc_interpMethod = im\<rparr>, st')
     \<and> cells st' (nxt st) = cells st ta
     \<and> length (cells st' (Suc (nxt st))) = length (cells st da)
     \<and> (\<forall>j < length (cells st ta).
           cells st' (Suc (nxt st)) ! j = cells st da ! j * exp (- s * (cells st ta ! j)))"
proof -
  let ?st1 = "st\<lparr>cells := (cells st)(nxt st := cells st ta), nxt := Suc (nxt st)\<rparr>"
  let ?st2 = "?st1\<lparr>cells := (cells ?st1)(Suc (nxt st) := cells ?st1 da),
                    nxt := Suc (Suc (nxt st))\<rparr>"
  have c1: "copy ta st = (nxt st, ?st1)" by (simp add: copy_def alloc_def)
  have c2: "copy da ?st1 = (Suc (nxt st), ?st2)" by (simp add: copy_def alloc_def)
  have cs: "cells ?st2 (nxt st) = cells st ta" "cells ?st2 (Suc (nxt st)) = cells st da"
    "cells ?st2 ta = cells st ta"
    using assms(5,6) by auto
  have ne: "nxt st \<noteq> Suc (nxt st)" by simp
  have rng: "i < length (cells ?st2 (nxt st)) \<and> i < length (cells ?st2 (Suc (nxt st)))"
    if "i \<in> set [0 ..< length (cells ?st2 ta)]" for i
    using that assms(7) unfolding cs by simp
  from bump_loop_scales [of "nxt st" "Suc (nxt st)" "[0 ..< length (cells ?st2 ta)]" ?st2 s,
      OF ne distinct_upt rng]
  obtain st3 where
    l: "bump_loop s (nxt st) (Suc (nxt st)) [0 ..< length (cells ?st2 ta)] ?st2 = (None, st3)"
    and v: "\<forall>j < length (cells ?st2 (Suc (nxt st))). cells st3 (Suc (nxt st)) ! j =
           (if j \<in> set [0 ..< length (cells ?st2 ta)]
            then cells ?st2 (Suc (nxt st)) ! j * exp (- s * (cells ?st2 (nxt st) ! j))
            else cells ?st2 (Suc (nxt st)) ! j)"
    by blast
  from bump_loop_frame [OF l]
  have f: "cells st3 (nxt st) = cells ?st2 (nxt st)"
    "length (cells st3 (Suc (nxt st))) = length (cells ?st2 (Suc (nxt st)))"
    by auto
  have b: "bump self s st =
       (Inr \<lparr>fdc_valuationDate = vd, fdc_times = nxt st,
             fdc_discountFactors = Suc (nxt st), fdc_interpMethod = im\<rparr>, st3)"
    unfolding bump_def assms(1-4) c1 c2 option.case prod.case l by simp
  have sc: "\<forall>j < length (cells st ta).
           cells st3 (Suc (nxt st)) ! j = cells st da ! j * exp (- s * (cells st ta ! j))"
  proof (intro allI impI)
    fix j assume j: "j < length (cells st ta)"
    then have "j < length (cells ?st2 (Suc (nxt st)))" using assms(7) unfolding cs by simp
    with v have "cells st3 (Suc (nxt st)) ! j =
           (if j \<in> set [0 ..< length (cells ?st2 ta)]
            then cells ?st2 (Suc (nxt st)) ! j * exp (- s * (cells ?st2 (nxt st) ! j))
            else cells ?st2 (Suc (nxt st)) ! j)" by blast
    then show "cells st3 (Suc (nxt st)) ! j = cells st da ! j * exp (- s * (cells st ta ! j))"
      using j unfolding cs by simp
  qed
  from f have f': "cells st3 (nxt st) = cells st ta"
    "length (cells st3 (Suc (nxt st))) = length (cells st da)"
    unfolding cs by simp_all
  from b f' sc show ?thesis by blast
qed

lemma sample_bump_Inr:
  "\<exists>st'. bump (sample_curve\<lparr>self_discountFactors := Some 2\<rparr>) s sample_store =
       (Inr \<lparr>fdc_valuationDate = 100, fdc_times = 3, fdc_discountFactors = 4,
             fdc_interpMethod = ''FLAT_FORWARDS''\<rparr>, st')
     \<and> cells st' 3 = [1, 2]
     \<and> length (cells st' 4) = 2
     \<and> cells st' 4 ! 0 = (51/50) powr (- 1) * exp (- s * 1)
     \<and> cells st' 4 ! 1 = (41/40) powr (- 2) * exp (- s * 2)"
proof -
  let ?c = "sample_curve\<lparr>self_discountFactors := Some 2\<rparr>"
  have n: "nxt sample_store = 3" "cells sample_store 1 = [1, 2]"
    "cells sample_store 2 = [(51/50) powr (- 1), (41/40) powr (- 2)]"
    "cells sample_store (Suc 0) = [1, 2]"
    by (simp_all add: sample_store_def)
  have s4: "Suc 3 = 4" by simp
  have p: "self_times ?c = Some 1" "self_discountFactors ?c = Some 2"
    "self_valuationDate ?c = Some 100" "self_interpMethod ?c = Some ''FLAT_FORWARDS''"
    "1 < nxt sample_store" "2 < nxt sample_store"
    "length (cells sample_store 1) \<le> length (cells sample_store 2)"
    by (simp_all add: sample_curve_def n)
  from bump_Inr [OF p, of s]
  obtain st' where b: "bump ?c s sample_store =
       (Inr \<lparr>fdc_valuationDate = 100, fdc_times = 3, fdc_discountFactors = 4,
             fdc_interpMethod = ''FLAT_FORWARDS''\<rparr>, st')"
    and c3: "cells st' 3 = [1, 2]" and l4: "length (cells st' 4) = 2"
    and v: "\<forall>j < length [1, 2 :: real]. cells st' 4 ! j =
         [(51/50) powr (- 1), (41/40) powr (- 2)] ! j * exp (- s * ([1, 2] ! j))"
    unfolding n s4 by auto
  from v [rule_format, of 0] v [rule_format, of 1]
  have "cells st' 4 ! 0 = (51/50) powr (- 1) * exp (- s * 1)"
    "cells st' 4 ! 1 = (41/40) powr (- 2) * exp (- s * 2)"
    by simp_all
  with b c3 l4 show ?thesis by blast
qed


text \<open>
  \<^verbatim>\<open>bump\<close> reads \<^verbatim>\<open>_times\<close>, \<^verbatim>\<open>_discountFactors\<close>, \<^verbatim>\<open>_valuationDate\<close> and
  \<^verbatim>\<open>_interpMethod\<close> and no other attribute.
\<close>

lemma bump_reads_four_attributes:
  "bump (self\<lparr>self_frequencyType := fq, self_dayCountType := dq, self_zeroDates := zq,
              self_zeroRates := rq, self_dfValues := vq\<rparr>) s st = bump self s st"
  by (simp add: bump_def cong: option.case_cong prod.case_cong)

subsection \<open>The rendering\<close>

lemma repr_loop_Inr:
  assumes "self_zeroDates self = Some zd" "self_zeroRates self = Some ra"
    "\<And>i. i \<in> set idx \<Longrightarrow> i < length zd \<and> i < length (cells st ra)"
  shows "repr_loop E self st idx s =
    Inr (s @ concat (map (\<lambda>i. labelToString E (PyDate (zd ! i)) (PyFloat (cells st ra ! i))) idx))"
  using assms by (induction idx arbitrary: s) auto

lemma zip_as_indices:
  "length xs = length ys \<Longrightarrow> map (\<lambda>i. (xs ! i, ys ! i)) [0 ..< length xs] = zip xs ys"
  by (rule nth_equalityI) simp_all

lemma repr_Inr:
  assumes "self_times self = Some ta" "self_zeroDates self = Some zd"
    "self_zeroRates self = Some ra" "self_frequencyType self = Some f"
    "length (cells st ta) = length zd" "length (cells st ra) = length zd"
  shows "FinDiscountCurveZeros_repr E self st =
     Inr (''FinDiscountCurveZeros'' @ [CHR 0x0A]
          @ labelToString E (PyStr ''DATES'') (PyStr ''ZERO RATES'')
          @ concat (map (\<lambda>(d, r). labelToString E (PyDate d) (PyFloat r)) (zip zd (cells st ra)))
          @ labelToString E (PyStr ''FREQUENCY'') (PyFrequency f))"
proof -
  have l: "repr_loop E self st [0 ..< length (cells st ta)]
             ((''FinDiscountCurveZeros'' @ [CHR 0x0A])
                @ labelToString E (PyStr ''DATES'') (PyStr ''ZERO RATES'')) =
     Inr (((''FinDiscountCurveZeros'' @ [CHR 0x0A])
                @ labelToString E (PyStr ''DATES'') (PyStr ''ZERO RATES''))
          @ concat (map (\<lambda>i. labelToString E (PyDate (zd ! i)) (PyFloat (cells st ra ! i)))
                      [0 ..< length (cells st ta)]))"
    using assms(5,6) by (intro repr_loop_Inr assms(2,3)) simp
  have "map (\<lambda>i. labelToString E (PyDate (zd ! i)) (PyFloat (cells st ra ! i))) [0 ..< length zd]
      = map (\<lambda>(d, r). labelToString E (PyDate d) (PyFloat r))
          (map (\<lambda>i. (zd ! i, cells st ra ! i)) [0 ..< length zd])"
    by simp
  also have "\<dots> = map (\<lambda>(d, r). labelToString E (PyDate d) (PyFloat r)) (zip zd (cells st ra))"
    using assms(6) by (simp only: zip_as_indices)
  finally have z: "map (\<lambda>i. labelToString E (PyDate (zd ! i)) (PyFloat (cells st ra ! i)))
       [0 ..< length zd]
      = map (\<lambda>(d, r). labelToString E (PyDate d) (PyFloat r)) (zip zd (cells st ra))" .
  show ?thesis
    unfolding FinDiscountCurveZeros_repr_def assms(1,4) option.case l sum.case
    using z assms(5) by simp
qed

subsection \<open>The Rate Converter and the known points\<close>





section \<open>The claims\<close>

subsection \<open>C1: what bump returns\<close>

text \<open>
  C1 says that \<^verbatim>\<open>bump(s)\<close> on a constructed curve returns a new curve over the same
  times, with each discount factor multiplied by \<open>exp (- s * t\<^sub>i)\<close> and with the
  source's interpolation method. The method reads \<^verbatim>\<open>self._discountFactors\<close>, and the
  construction assigns \<^verbatim>\<open>self._dfValues\<close> only: on every constructed curve, for every
  shift and in every store, \<^verbatim>\<open>bump\<close> raises \<^verbatim>\<open>AttributeError\<close> and returns no curve.
\<close>

theorem bump_after_init_raises:
  assumes "FinDiscountCurveZeros_init E vd zd zr f dc m st = (Inr self, st')"
  shows "fst (bump self s st'') = Inl (AttributeError ''_discountFactors'')"
  using init_attributes [OF assms] by (simp add: bump_unassigned)

theorem bump_after_init_raises_witness:
  "FinDiscountCurveZeros_init sample_env 100 [465, 830] 0 ''ANNUAL'' ''ACT_ACT_ISDA''
     ''FLAT_FORWARDS'' (store_of [1/50, 1/40]) = (Inr sample_curve, sample_store)
   \<and> fst (bump sample_curve (1/100) sample_store) = Inl (AttributeError ''_discountFactors'')"
  using bump_after_init_raises [OF sample_init, of "1/100" sample_store] sample_init
  by simp

subsection \<open>C2: the round trip of the rates\<close>




subsection \<open>C3: the order of the checks and the errors they raise\<close>

text \<open>
  C3 as stated: each violated check raises an error of a kind of its own
  (EmptyInputError, LengthMismatchError, UnknownConventionError,
  NonMonotonicTimeError). The constructor raises the same class, \<^verbatim>\<open>FinError\<close>, at every
  check: an empty date list, three dates for two rates, an unknown frequency and dates
  in decreasing order all give an exception of class \<^verbatim>\<open>FinError\<close>.
\<close>

theorem init_errors_share_class:
  "map_sum class_of (\<lambda>c. ())
     (fst (FinDiscountCurveZeros_init sample_env 100 [] 0 ''ANNUAL'' ''ACT_ACT_ISDA''
            ''FLAT_FORWARDS'' (store_of []))) = Inl FinErrorClass
   \<and> map_sum class_of (\<lambda>c. ())
     (fst (FinDiscountCurveZeros_init sample_env 100 [465, 830, 1195] 0 ''ANNUAL''
            ''ACT_ACT_ISDA'' ''FLAT_FORWARDS'' (store_of [1/50, 1/40]))) = Inl FinErrorClass
   \<and> map_sum class_of (\<lambda>c. ())
     (fst (FinDiscountCurveZeros_init sample_env 100 [465, 830] 0 ''WEEKLY''
            ''ACT_ACT_ISDA'' ''FLAT_FORWARDS'' (store_of [1/50, 1/40]))) = Inl FinErrorClass
   \<and> map_sum class_of (\<lambda>c. ())
     (fst (FinDiscountCurveZeros_init sample_env 100 [830, 465] 0 ''ANNUAL''
            ''ACT_ACT_ISDA'' ''FLAT_FORWARDS'' (store_of [1/50, 1/40]))) = Inl FinErrorClass"
  by (simp add: FinDiscountCurveZeros_init_def sample_env_def store_of_def alloc_def
        timesFromDates_def)

text \<open>
  C3 as amended: once the argument type check has passed, the checks fail fast in the
  order empty dates, length mismatch, unknown frequency, unknown day count, times not
  strictly increasing, and an input that passes all five is constructed. Each failure
  is a \<^verbatim>\<open>FinError\<close> whose message tells the check: the five messages are pairwise
  different, whatever the selectors print as.
\<close>

theorem init_validation_order:
  assumes "checkArgumentTypes E vd zd (cells st zr) f dc m = None"
  shows
    "(zd = [] \<longrightarrow>
        fst (FinDiscountCurveZeros_init E vd zd zr f dc m st) =
          Inl (FinError ''Dates has zero length''))
   \<and> (zd \<noteq> [] \<and> length zd \<noteq> length (cells st zr) \<longrightarrow>
        fst (FinDiscountCurveZeros_init E vd zd zr f dc m st) =
          Inl (FinError ''Dates and Rates are not the same length''))
   \<and> (zd \<noteq> [] \<and> length zd = length (cells st zr) \<and> \<not> inFinFrequencyTypes E f \<longrightarrow>
        fst (FinDiscountCurveZeros_init E vd zd zr f dc m st) =
          Inl (FinError (''Unknown Frequency type '' @ strFrequency E f)))
   \<and> (zd \<noteq> [] \<and> length zd = length (cells st zr) \<and> inFinFrequencyTypes E f
        \<and> \<not> inFinDayCountTypes E dc \<longrightarrow>
        fst (FinDiscountCurveZeros_init E vd zd zr f dc m st) =
          Inl (FinError (''Unknown Cap Floor DayCountRule type '' @ strDayCount E dc)))
   \<and> (zd \<noteq> [] \<and> length zd = length (cells st zr) \<and> inFinFrequencyTypes E f
        \<and> inFinDayCountTypes E dc \<and> \<not> sorted_wrt (<) (timesFromDates E zd vd dc) \<longrightarrow>
        fst (FinDiscountCurveZeros_init E vd zd zr f dc m st) =
          Inl (FinError ''Times or dates are not sorted in increasing order''))
   \<and> (zd \<noteq> [] \<and> length zd = length (cells st zr) \<and> inFinFrequencyTypes E f
        \<and> inFinDayCountTypes E dc \<and> sorted_wrt (<) (timesFromDates E zd vd dc)
        \<and> zr < nxt st \<longrightarrow>
        (\<exists>self. fst (FinDiscountCurveZeros_init E vd zd zr f dc m st) = Inr self))
   \<and> distinct [''Dates has zero length'', ''Dates and Rates are not the same length'',
        ''Unknown Frequency type '' @ strFrequency E f,
        ''Unknown Cap Floor DayCountRule type '' @ strDayCount E dc,
        ''Times or dates are not sorted in increasing order'']"
proof -
  have ok: "zd \<noteq> [] \<Longrightarrow> length zd = length (cells st zr) \<Longrightarrow> inFinFrequencyTypes E f
        \<Longrightarrow> inFinDayCountTypes E dc \<Longrightarrow> sorted_wrt (<) (timesFromDates E zd vd dc)
        \<Longrightarrow> zr < nxt st \<Longrightarrow>
        (\<exists>self. fst (FinDiscountCurveZeros_init E vd zd zr f dc m st) = Inr self)"
    using init_succeeds [OF assms] by fastforce
  have bad: "zd \<noteq> [] \<Longrightarrow> length zd = length (cells st zr) \<Longrightarrow> inFinFrequencyTypes E f
        \<Longrightarrow> inFinDayCountTypes E dc \<Longrightarrow> \<not> sorted_wrt (<) (timesFromDates E zd vd dc) \<Longrightarrow>
        fst (FinDiscountCurveZeros_init E vd zd zr f dc m st) =
          Inl (FinError ''Times or dates are not sorted in increasing order'')"
    using assms by (auto simp: FinDiscountCurveZeros_init_def alloc_def testMonotonicity_iff)
  show ?thesis
  proof (intro conjI impI)
    show "distinct [''Dates has zero length'', ''Dates and Rates are not the same length'',
        ''Unknown Frequency type '' @ strFrequency E f,
        ''Unknown Cap Floor DayCountRule type '' @ strDayCount E dc,
        ''Times or dates are not sorted in increasing order'']"
      by simp
  qed (use assms ok bad in \<open>auto simp: FinDiscountCurveZeros_init_def\<close>)
qed

theorem init_validation_order_witness:
  "fst (FinDiscountCurveZeros_init sample_env 100 [] 0 ''WEEKLY'' ''ACT_360'' ''FLAT_FORWARDS''
          (store_of [1/50])) = Inl (FinError ''Dates has zero length'')
   \<and> fst (FinDiscountCurveZeros_init sample_env 100 [830, 465, 1195] 0 ''WEEKLY'' ''ACT_360''
          ''FLAT_FORWARDS'' (store_of [1/50, 1/40])) =
        Inl (FinError ''Dates and Rates are not the same length'')
   \<and> fst (FinDiscountCurveZeros_init sample_env 100 [830, 465] 0 ''WEEKLY'' ''ACT_360''
          ''FLAT_FORWARDS'' (store_of [1/50, 1/40])) =
        Inl (FinError ''Unknown Frequency type WEEKLY'')
   \<and> fst (FinDiscountCurveZeros_init sample_env 100 [830, 465] 0 ''ANNUAL'' ''ACT_360''
          ''FLAT_FORWARDS'' (store_of [1/50, 1/40])) =
        Inl (FinError ''Unknown Cap Floor DayCountRule type ACT_360'')
   \<and> fst (FinDiscountCurveZeros_init sample_env 100 [830, 465] 0 ''ANNUAL'' ''ACT_ACT_ISDA''
          ''FLAT_FORWARDS'' (store_of [1/50, 1/40])) =
        Inl (FinError ''Times or dates are not sorted in increasing order'')
   \<and> (\<exists>self. fst (FinDiscountCurveZeros_init sample_env 100 [465, 830] 0 ''ANNUAL''
          ''ACT_ACT_ISDA'' ''FLAT_FORWARDS'' (store_of [1/50, 1/40])) = Inr self)"
proof -
  note w = init_validation_order [OF sample_chk]
  have e: "inFinFrequencyTypes sample_env ''ANNUAL''"
    "\<not> inFinFrequencyTypes sample_env ''WEEKLY''"
    "inFinDayCountTypes sample_env ''ACT_ACT_ISDA''"
    "\<not> inFinDayCountTypes sample_env ''ACT_360''"
    "strFrequency sample_env ''WEEKLY'' = ''WEEKLY''"
    "strDayCount sample_env ''ACT_360'' = ''ACT_360''"
    "cells (store_of [1/50]) 0 = [1/50]" "cells (store_of [1/50, 1/40]) 0 = [1/50, 1/40]"
    "nxt (store_of [1/50, 1/40]) = 1"
    "timesFromDates sample_env [830, 465] 100 ''ACT_ACT_ISDA'' = [2, 1]"
    "timesFromDates sample_env [465, 830] 100 ''ACT_ACT_ISDA'' = [1, 2]"
    by (simp_all add: sample_env_def store_of_def timesFromDates_def)
  show ?thesis
    using
      w [where vd=100 and zd="[]" and st="store_of [1/50]" and zr=0 and f="''WEEKLY''"
           and dc="''ACT_360''" and m="''FLAT_FORWARDS''"]
      w [where vd=100 and zd="[830, 465, 1195]" and st="store_of [1/50, 1/40]" and zr=0
           and f="''WEEKLY''" and dc="''ACT_360''" and m="''FLAT_FORWARDS''"]
      w [where vd=100 and zd="[830, 465]" and st="store_of [1/50, 1/40]" and zr=0
           and f="''WEEKLY''" and dc="''ACT_360''" and m="''FLAT_FORWARDS''"]
      w [where vd=100 and zd="[830, 465]" and st="store_of [1/50, 1/40]" and zr=0
           and f="''ANNUAL''" and dc="''ACT_360''" and m="''FLAT_FORWARDS''"]
      w [where vd=100 and zd="[830, 465]" and st="store_of [1/50, 1/40]" and zr=0
           and f="''ANNUAL''" and dc="''ACT_ACT_ISDA''" and m="''FLAT_FORWARDS''"]
      w [where vd=100 and zd="[465, 830]" and st="store_of [1/50, 1/40]" and zr=0
           and f="''ANNUAL''" and dc="''ACT_ACT_ISDA''" and m="''FLAT_FORWARDS''"]
    by (simp add: e)
qed

subsection \<open>C4: the invariants of a constructed curve\<close>

text \<open>
  C4 as stated: every constructed curve has \<open>times[0] \<ge> 0\<close>. The constructor compares
  the times with each other and never with zero: with the valuation on day 100 and one
  observation on day 50, it returns a curve whose first time is negative.
\<close>

theorem init_accepts_negative_time:
  "(case FinDiscountCurveZeros_init sample_env 100 [50] 0 ''ANNUAL'' ''ACT_ACT_ISDA''
           ''FLAT_FORWARDS'' (store_of [1/50]) of
      (Inl e, st') \<Rightarrow> False
    | (Inr self, st') \<Rightarrow>
        (case self_times self of None \<Rightarrow> False | Some ta \<Rightarrow> cells st' ta ! 0 < 0))"
  by (simp add: FinDiscountCurveZeros_init_def sample_env_def store_of_def alloc_def
        timesFromDates_def buildCurvePoints_def new_object_def)

text \<open>
  C4 as amended: every curve the construction returns, from rates that exist in the
  store, has times, discount factors, retained dates and retained rates of one and the
  same positive length; the retained rates are the input's; the times are strictly
  increasing; the first time is the year fraction from the valuation date to the first
  date, of whatever sign; and \<^verbatim>\<open>bump\<close> changes none of these sequences
  (\<^verbatim>\<open>__repr__\<close> only reads: it returns no store).
\<close>

theorem init_invariants:
  assumes "FinDiscountCurveZeros_init E vd zd zr f dc m st = (Inr self, st')"
    and "zr < nxt st"
  shows "\<exists>ta da. self_times self = Some ta \<and> self_dfValues self = Some da
     \<and> self_zeroDates self = Some zd \<and> self_zeroRates self = Some zr
     \<and> cells st' zr = cells st zr
     \<and> length (cells st' ta) = length (cells st' da)
     \<and> length (cells st' da) = length zd
     \<and> length zd = length (cells st' zr)
     \<and> 0 < length zd
     \<and> sorted_wrt (<) (cells st' ta)
     \<and> cells st' ta ! 0 = yearFrac E dc vd (zd ! 0)
     \<and> (\<forall>s. cells (snd (bump self s st')) ta = cells st' ta
            \<and> cells (snd (bump self s st')) da = cells st' da
            \<and> cells (snd (bump self s st')) zr = cells st' zr)"
proof -
  note a = init_attributes [OF assms(1)]
  note i = init_Inr [OF assms]
  let ?ta = "nxt st" and ?da = "Suc (nxt st)"
  have n: "nxt st' = Suc (Suc (nxt st))" using i by simp
  have c: "cells st' zr = cells st zr" "cells st' ?ta = timesFromDates E zd vd dc"
    "length (cells st' ?da) = length zd"
    using i assms(2) by auto
  have ne: "zd \<noteq> []" and len: "length zd = length (cells st zr)"
    and srt: "sorted_wrt (<) (timesFromDates E zd vd dc)"
    using i by simp_all
  have lt: "length (timesFromDates E zd vd dc) = length zd" by (simp add: timesFromDates_def)
  have first: "timesFromDates E zd vd dc ! 0 = yearFrac E dc vd (zd ! 0)"
    using ne by (simp add: timesFromDates_def)
  have fr: "cells (snd (bump self s st')) b = cells st' b" if "b < nxt st'" for s b
    using bump_frame [of self s st' "fst (bump self s st')" "snd (bump self s st')"] that
    by simp
  have "self_times self = Some ?ta \<and> self_dfValues self = Some ?da
     \<and> self_zeroDates self = Some zd \<and> self_zeroRates self = Some zr
     \<and> cells st' zr = cells st zr
     \<and> length (cells st' ?ta) = length (cells st' ?da)
     \<and> length (cells st' ?da) = length zd
     \<and> length zd = length (cells st' zr)
     \<and> 0 < length zd
     \<and> sorted_wrt (<) (cells st' ?ta)
     \<and> cells st' ?ta ! 0 = yearFrac E dc vd (zd ! 0)
     \<and> (\<forall>s. cells (snd (bump self s st')) ?ta = cells st' ?ta
            \<and> cells (snd (bump self s st')) ?da = cells st' ?da
            \<and> cells (snd (bump self s st')) zr = cells st' zr)"
  proof (intro conjI allI)
    show "0 < length zd" using ne by simp
    show "length zd = length (cells st' zr)" using len c by simp
    show "length (cells st' ?ta) = length (cells st' ?da)" using c lt by simp
  qed (use a c srt first fr n assms(2) in simp_all)
  then show ?thesis by blast
qed

theorem init_invariants_witness:
  "self_times sample_curve = Some 1 \<and> self_dfValues sample_curve = Some 2
   \<and> length (cells sample_store 1) = 2 \<and> length (cells sample_store 2) = 2
   \<and> length (cells sample_store 0) = 2
   \<and> sorted_wrt (<) (cells sample_store 1)
   \<and> cells sample_store 1 ! 0 = 1
   \<and> cells (snd (bump sample_curve (1/100) sample_store)) 1 = [1, 2]"
proof -
  have n: "0 < nxt (store_of [1/50, 1/40])" by (simp add: store_of_def)
  from init_invariants [OF sample_init n]
  show ?thesis by (simp add: sample_curve_def sample_store_def)
qed

subsection \<open>C5: the discount factor at time zero\<close>

text \<open>
  C5: \<^verbatim>\<open>getDiscountFactor(0)\<close> is exactly 1, whatever the rates and the conventions
  (and whatever the object and the store).
\<close>

theorem getDiscountFactor_at_zero: "getDiscountFactor E self 0 st = Inr 1"
  by (simp add: getDiscountFactor_def)

subsection \<open>C6: the zero shift\<close>

text \<open>
  C6 says that \<^verbatim>\<open>curve.bump(0)\<close> answers every discount-factor query as \<^verbatim>\<open>curve\<close>
  does. On the sample curve, as on every constructed curve, \<^verbatim>\<open>bump(0)\<close> raises
  \<^verbatim>\<open>AttributeError\<close> before it scales anything: there is no curve to query.
\<close>

theorem bump_zero_shift_raises:
  "FinDiscountCurveZeros_init sample_env 100 [465, 830] 0 ''ANNUAL'' ''ACT_ACT_ISDA''
     ''FLAT_FORWARDS'' (store_of [1/50, 1/40]) = (Inr sample_curve, sample_store)
   \<and> fst (bump sample_curve 0 sample_store) = Inl (AttributeError ''_discountFactors'')"
  using sample_init by (simp add: bump_unassigned sample_curve_def)

subsection \<open>C7: bump and the source curve\<close>

text \<open>
  C7: calling \<^verbatim>\<open>bump\<close> leaves the source curve as it was, and the returned curve
  is independent of it. The method assigns no attribute of \<^verbatim>\<open>self\<close>, so what can
  change is the content of the sequences its attributes refer to. Every sequence that
  exists when \<^verbatim>\<open>bump\<close> is called (the source's times, discount factors and retained
  rates among them) has the same items afterwards, whether \<^verbatim>\<open>bump\<close> raises or
  returns; the sequences of a returned curve are new ones, so assigning to an item of
  either leaves the old sequences alone; and so does any later \<^verbatim>\<open>bump\<close>, on any
  object.
\<close>

theorem bump_leaves_source_unchanged:
  fixes self :: "('d, 'f, 'c, 'm) FinDiscountCurveZeros"
  assumes "bump self s st = (r, st')" and "a < nxt st"
  shows "cells st' a = cells st a
    \<and> (\<forall>d. r = Inr d \<longrightarrow>
          fdc_times d \<noteq> a \<and> fdc_discountFactors d \<noteq> a
          \<and> (\<forall>i v. cells (snd (setitem (fdc_times d) i v st')) a = cells st a)
          \<and> (\<forall>i v. cells (snd (setitem (fdc_discountFactors d) i v st')) a = cells st a))
    \<and> (\<forall>(self2 :: ('d, 'f, 'c, 'm) FinDiscountCurveZeros) s2.
          cells (snd (bump self2 s2 st')) a = cells st a)"
proof -
  from bump_frame [OF assms(1)] assms(2)
  have u: "cells st' a = cells st a" and n: "a < nxt st'" by auto
  have fresh: "fdc_times d \<noteq> a \<and> fdc_discountFactors d \<noteq> a" if "r = Inr d" for d
    using bump_result [of self s st d st'] assms that by auto
  have w: "cells (snd (setitem b i v st')) a = cells st' a" if "b \<noteq> a" for b i v
    using that by (simp add: setitem_def)
  have again: "cells (snd (bump self2 s2 st')) a = cells st' a"
    for self2 :: "('d, 'f, 'c, 'm) FinDiscountCurveZeros" and s2
    using bump_frame [of self2 s2 st' "fst (bump self2 s2 st')" "snd (bump self2 s2 st')"] n
    by simp
  show ?thesis
  proof (intro conjI allI impI)
    show "cells st' a = cells st a" by (rule u)
  qed (use u fresh w again in simp_all)
qed

theorem bump_leaves_source_unchanged_witness:
  "cells (snd (bump sample_curve (1/100) sample_store)) 2 = cells sample_store 2
   \<and> (\<exists>d. fst (bump (sample_curve\<lparr>self_discountFactors := Some 2\<rparr>) (1/100) sample_store)
             = Inr d
          \<and> fdc_discountFactors d = 4
          \<and> cells (snd (setitem (fdc_discountFactors d) 0 7
                (snd (bump (sample_curve\<lparr>self_discountFactors := Some 2\<rparr>) (1/100)
                        sample_store)))) 2 = cells sample_store 2)"
proof -
  have n: "2 < nxt sample_store" by (simp add: sample_store_def)
  have a: "cells (snd (bump sample_curve (1/100) sample_store)) 2 = cells sample_store 2"
    using bump_leaves_source_unchanged [OF prod.collapse [symmetric] n, of sample_curve "1/100"]
    by blast
  from sample_bump_Inr [of "1/100"] obtain st' where
    b: "bump (sample_curve\<lparr>self_discountFactors := Some 2\<rparr>) (1/100) sample_store =
       (Inr \<lparr>fdc_valuationDate = 100, fdc_times = 3, fdc_discountFactors = 4,
             fdc_interpMethod = ''FLAT_FORWARDS''\<rparr>, st')"
    by blast
  from bump_leaves_source_unchanged [OF b n]
  have "cells (snd (setitem 4 0 7 st')) 2 = cells sample_store 2" by simp
  with b a show ?thesis by simp
qed

subsection \<open>C8: the rendering\<close>

text \<open>
  C8 as stated: the rendering consists of the curve type name, then one line per
  observation, then the frequency label. Between the name and the observations
  \<^verbatim>\<open>__repr__\<close> puts a heading, \<^verbatim>\<open>labelToString("DATES", "ZERO RATES")\<close>: the
  rendering of the sample curve is not its name followed by its two observations and
  its frequency.
\<close>

theorem repr_has_heading:
  "FinDiscountCurveZeros_init sample_env 100 [465, 830] 0 ''ANNUAL'' ''ACT_ACT_ISDA''
     ''FLAT_FORWARDS'' (store_of [1/50, 1/40]) = (Inr sample_curve, sample_store)
   \<and> FinDiscountCurveZeros_repr sample_env sample_curve sample_store \<noteq>
     Inr (''FinDiscountCurveZeros'' @ [CHR 0x0A]
          @ labelToString sample_env (PyDate 465) (PyFloat (1/50))
          @ labelToString sample_env (PyDate 830) (PyFloat (1/40))
          @ labelToString sample_env (PyStr ''FREQUENCY'') (PyFrequency ''ANNUAL''))"
proof -
  have a: "self_times sample_curve = Some 1" "self_zeroDates sample_curve = Some [465, 830]"
    "self_zeroRates sample_curve = Some 0" "self_frequencyType sample_curve = Some ''ANNUAL''"
    by (simp_all add: sample_curve_def)
  have l: "length (cells sample_store 1) = length [465, 830 :: int]"
    "length (cells sample_store 0) = length [465, 830 :: int]"
    by (simp_all add: sample_store_def)
  have "FinDiscountCurveZeros_repr sample_env sample_curve sample_store \<noteq>
     Inr (''FinDiscountCurveZeros'' @ [CHR 0x0A]
          @ labelToString sample_env (PyDate 465) (PyFloat (1/50))
          @ labelToString sample_env (PyDate 830) (PyFloat (1/40))
          @ labelToString sample_env (PyStr ''FREQUENCY'') (PyFrequency ''ANNUAL''))"
    unfolding repr_Inr [OF a l]
    by (simp add: sample_env_def sample_label_def sample_store_def)
  with sample_init show ?thesis by (rule conjI)
qed

text \<open>
  C8 as amended: the rendering of a constructed curve is the class name and a newline,
  the heading \<^verbatim>\<open>labelToString("DATES", "ZERO RATES")\<close>, one
  \<^verbatim>\<open>labelToString(date, rate)\<close> for each observation, date and rate as they were given
  and in the order they were given, and \<^verbatim>\<open>labelToString("FREQUENCY", frequencyType)\<close>.
  It is a function of the retained inputs: replacing the contents of the times (by as
  many values) and of the discount factors does not change it.
\<close>

theorem repr_of_constructed:
  assumes "FinDiscountCurveZeros_init E vd zd zr f dc m st = (Inr self, st')"
    and "zr < nxt st"
  shows "FinDiscountCurveZeros_repr E self st' =
     Inr (''FinDiscountCurveZeros'' @ [CHR 0x0A]
          @ labelToString E (PyStr ''DATES'') (PyStr ''ZERO RATES'')
          @ concat (map (\<lambda>(d, r). labelToString E (PyDate d) (PyFloat r)) (zip zd (cells st zr)))
          @ labelToString E (PyStr ''FREQUENCY'') (PyFrequency f))
   \<and> (\<forall>ta da ts ds. self_times self = Some ta \<longrightarrow> self_dfValues self = Some da \<longrightarrow>
         length ts = length zd \<longrightarrow>
         FinDiscountCurveZeros_repr E self (st'\<lparr>cells := (cells st')(ta := ts, da := ds)\<rparr>) =
         FinDiscountCurveZeros_repr E self st')"
proof -
  note a = init_attributes [OF assms(1)]
  note i = init_Inr [OF assms]
  have at: "self_times self = Some (nxt st)" "self_zeroDates self = Some zd"
    "self_zeroRates self = Some zr" "self_frequencyType self = Some f"
    "self_dfValues self = Some (Suc (nxt st))"
    by (simp_all add: a)
  have st': "nxt st' = Suc (Suc (nxt st))" "cells st' zr = cells st zr"
    "cells st' (nxt st) = timesFromDates E zd vd dc"
    using i assms(2) by auto
  have len: "length (cells st zr) = length zd" "length (timesFromDates E zd vd dc) = length zd"
    using i by (simp_all add: timesFromDates_def)
  have r: "FinDiscountCurveZeros_repr E self st' =
     Inr (''FinDiscountCurveZeros'' @ [CHR 0x0A]
          @ labelToString E (PyStr ''DATES'') (PyStr ''ZERO RATES'')
          @ concat (map (\<lambda>(d, r). labelToString E (PyDate d) (PyFloat r)) (zip zd (cells st' zr)))
          @ labelToString E (PyStr ''FREQUENCY'') (PyFrequency f))"
    by (rule repr_Inr [OF at(1-4)]) (simp_all add: st' len)
  have r2: "FinDiscountCurveZeros_repr E self (st'\<lparr>cells := (cells st')(nxt st := ts, Suc (nxt st) := ds)\<rparr>) =
     Inr (''FinDiscountCurveZeros'' @ [CHR 0x0A]
          @ labelToString E (PyStr ''DATES'') (PyStr ''ZERO RATES'')
          @ concat (map (\<lambda>(d, r). labelToString E (PyDate d) (PyFloat r)) (zip zd (cells st' zr)))
          @ labelToString E (PyStr ''FREQUENCY'') (PyFrequency f))"
    if "length ts = length zd" for ts ds
  proof -
    let ?s = "st'\<lparr>cells := (cells st')(nxt st := ts, Suc (nxt st) := ds)\<rparr>"
    have c: "cells ?s zr = cells st' zr" "cells ?s (nxt st) = ts"
      using assms(2) by simp_all
    have "FinDiscountCurveZeros_repr E self ?s =
     Inr (''FinDiscountCurveZeros'' @ [CHR 0x0A]
          @ labelToString E (PyStr ''DATES'') (PyStr ''ZERO RATES'')
          @ concat (map (\<lambda>(d, r). labelToString E (PyDate d) (PyFloat r)) (zip zd (cells ?s zr)))
          @ labelToString E (PyStr ''FREQUENCY'') (PyFrequency f))"
      by (rule repr_Inr [OF at(1-4)]) (simp_all only: c that st' len)
    then show ?thesis by (simp only: c)
  qed
  show ?thesis
  proof (intro conjI allI impI)
    show "FinDiscountCurveZeros_repr E self st' =
     Inr (''FinDiscountCurveZeros'' @ [CHR 0x0A]
          @ labelToString E (PyStr ''DATES'') (PyStr ''ZERO RATES'')
          @ concat (map (\<lambda>(d, r). labelToString E (PyDate d) (PyFloat r)) (zip zd (cells st zr)))
          @ labelToString E (PyStr ''FREQUENCY'') (PyFrequency f))"
      using r by (simp only: st')
  next
    fix ta da :: addr and ts ds :: "real list"
    assume "self_times self = Some ta" "self_dfValues self = Some da" "length ts = length zd"
    then have "ta = nxt st" "da = Suc (nxt st)" using at by simp_all
    with r r2 [OF \<open>length ts = length zd\<close>, of ds]
    show "FinDiscountCurveZeros_repr E self (st'\<lparr>cells := (cells st')(ta := ts, da := ds)\<rparr>) =
         FinDiscountCurveZeros_repr E self st'"
      by simp
  qed
qed

theorem repr_of_constructed_witness:
  "FinDiscountCurveZeros_repr sample_env sample_curve sample_store =
     Inr (''FinDiscountCurveZeros'' @ [CHR 0x0A]
          @ ''DATES: ZERO RATES'' @ [CHR 0x0A]
          @ ''<date>: <float>'' @ [CHR 0x0A]
          @ ''<date>: <float>'' @ [CHR 0x0A]
          @ ''FREQUENCY: ANNUAL'' @ [CHR 0x0A])"
proof -
  have n: "0 < nxt (store_of [1/50, 1/40])" by (simp add: store_of_def)
  from repr_of_constructed [OF sample_init n]
  show ?thesis by (simp add: sample_env_def sample_label_def store_of_def)
qed

subsection \<open>C9: the interpolation method is not validated\<close>

text \<open>
  C9 as stated: for every value passed as \<^verbatim>\<open>interpMethod\<close>, members of the enumeration
  or not, the constructor raises no error on its account and stores it. The first
  statement of the constructor checks the arguments against the annotations, and
  \<^verbatim>\<open>interpMethod\<close> is annotated: with a check that raises on a value that is no
  member, the construction that succeeds with the default method fails with the other
  value, before anything is stored.
\<close>

theorem init_rejects_unrecognised_interpMethod:
  "FinDiscountCurveZeros_init strict_env 100 [465, 830] 0 ''ANNUAL'' ''ACT_ACT_ISDA''
     ''FLAT_FORWARDS'' (store_of [1/50, 1/40]) = (Inr sample_curve, sample_store)
   \<and> FinDiscountCurveZeros_init strict_env 100 [465, 830] 0 ''ANNUAL'' ''ACT_ACT_ISDA''
     ''NOT_A_METHOD'' (store_of [1/50, 1/40])
      = (Inl (FinError ''Argument Type Error''), store_of [1/50, 1/40])"
  by (simp add: FinDiscountCurveZeros_init_def strict_env_def sample_env_def store_of_def
        alloc_def timesFromDates_def buildCurvePoints_def new_object_def upt_rec
        numeral_2_eq_2 sample_curve_def sample_store_def)

text \<open>
  C9 as amended: the constructor checks the frequency and the day count for membership
  and does nothing of the kind for \<^verbatim>\<open>interpMethod\<close> after the argument type check. For
  any two values \<open>m\<close> and \<open>m'\<close> that the argument type check lets through,
  construction with \<open>m\<close> fails exactly when, and with the error that, construction with
  \<open>m'\<close> does; when it succeeds, the curve is the same but for the stored method, which is
  \<open>m\<close> as given.
\<close>

theorem init_any_interpMethod:
  assumes "checkArgumentTypes E vd zd (cells st zr) f dc m = None"
    and "checkArgumentTypes E vd zd (cells st zr) f dc m' = None"
  shows "FinDiscountCurveZeros_init E vd zd zr f dc m st =
       (case FinDiscountCurveZeros_init E vd zd zr f dc m' st of
          (Inl e, st') \<Rightarrow> (Inl e, st')
        | (Inr c, st') \<Rightarrow> (Inr (c\<lparr>self_interpMethod := Some m\<rparr>), st'))
     \<and> (\<forall>self st'. FinDiscountCurveZeros_init E vd zd zr f dc m st = (Inr self, st')
           \<longrightarrow> self_interpMethod self = Some m)"
proof (intro conjI allI impI)
  let ?obj = "\<lambda>x. new_object\<lparr>self_valuationDate := Some vd, self_frequencyType := Some f,
                self_dayCountType := Some dc, self_interpMethod := Some x,
                self_times := Some (nxt st), self_zeroRates := Some zr,
                self_zeroDates := Some zd\<rparr>"
  have o: "?obj m = (?obj m')\<lparr>self_interpMethod := Some m\<rparr>" by simp
  show "FinDiscountCurveZeros_init E vd zd zr f dc m st =
       (case FinDiscountCurveZeros_init E vd zd zr f dc m' st of
          (Inl e, st') \<Rightarrow> (Inl e, st')
        | (Inr c, st') \<Rightarrow> (Inr (c\<lparr>self_interpMethod := Some m\<rparr>), st'))"
    unfolding FinDiscountCurveZeros_init_def assms option.case alloc_def prod.case o
      buildCurvePoints_interpMethod
    by simp
next
  fix self st'
  assume "FinDiscountCurveZeros_init E vd zd zr f dc m st = (Inr self, st')"
  from init_attributes [OF this] show "self_interpMethod self = Some m" by simp
qed

theorem init_any_interpMethod_witness:
  "FinDiscountCurveZeros_init sample_env 100 [465, 830] 0 ''ANNUAL'' ''ACT_ACT_ISDA''
     ''NOT_A_METHOD'' (store_of [1/50, 1/40]) =
   (Inr (sample_curve\<lparr>self_interpMethod := Some ''NOT_A_METHOD''\<rparr>), sample_store)"
  using init_any_interpMethod [OF sample_chk sample_chk, where vd=100 and zd="[465, 830]"
          and st="store_of [1/50, 1/40]" and zr=0 and f="''ANNUAL''" and dc="''ACT_ACT_ISDA''"
          and m="''NOT_A_METHOD''" and m'="''FLAT_FORWARDS''"]
  by (simp add: sample_init)

subsection \<open>C10: what the returned curve carries\<close>


end
